theory Spec2Isabelle
  imports Main "HOL-Library.Word"
begin

unbundle bit_operations_syntax

section \<open>Data model of the policy and rule conversion (package conversionv1v3)\<close>

text \<open>
  A Go slice is either nil or a (possibly empty) sequence; the two are different values
  and the conversion code tests for nil, so a slice is an optional list:
  \<open>None\<close> is the nil slice and \<open>Some []\<close> the empty non-nil slice.
  A Go pointer is an optional value, \<open>None\<close> being the nil pointer.
\<close>

type_synonym 'a slice = "'a list option"

text \<open>
  Modelled from the spec: \<open>numorstring.Protocol\<close> and \<open>numorstring.Port\<close> are declared
  outside the files at hand. A protocol is a name or a number; a port entry is a range
  of 16-bit port numbers. The conversion only copies them.
\<close>

datatype Protocol = ProtocolNum "8 word" | ProtocolName string

datatype Port = Port (MinPort: "16 word") (MaxPort: "16 word")

text \<open>
  Modelled from the spec: \<open>net.IPNet\<close> (package lib/net) is declared outside the files at
  hand. A network is an IPv4 or IPv6 address together with its prefix length.
\<close>

datatype IP = IPv4 "32 word" | IPv6 "128 word"

record IPNet =
  IP :: IP
  PrefixLen :: nat

text \<open>The legacy API shapes \<open>apiv1.ICMPFields\<close>, \<open>apiv1.EntityRule\<close> and \<open>apiv1.Rule\<close>.\<close>

record ICMPFieldsV1 =
  v1_icmp_Type :: "int option"
  v1_icmp_Code :: "int option"

record EntityRuleV1 =
  v1_Tag :: string
  v1_Net :: "IPNet option"
  v1_Nets :: "IPNet option slice"
  v1_Selector :: string
  v1_Ports :: "Port slice"
  v1_NotTag :: string
  v1_NotNet :: "IPNet option"
  v1_NotNets :: "IPNet option slice"
  v1_NotSelector :: string
  v1_NotPorts :: "Port slice"

record RuleV1 =
  v1_Action :: string
  v1_IPVersion :: "int option"
  v1_Protocol :: "Protocol option"
  v1_ICMP :: "ICMPFieldsV1 option"
  v1_NotProtocol :: "Protocol option"
  v1_NotICMP :: "ICMPFieldsV1 option"
  v1_Source :: EntityRuleV1
  v1_Destination :: EntityRuleV1

text \<open>The backend shape \<open>model.Rule\<close>, with the fields the conversion reads and writes.\<close>

record Rule =
  Action :: string
  IPVersion :: "int option"
  Protocol :: "Protocol option"
  ICMPCode :: "int option"
  ICMPType :: "int option"
  NotProtocol :: "Protocol option"
  NotICMPCode :: "int option"
  NotICMPType :: "int option"
  SrcTag :: string
  SrcNet :: "IPNet option"
  SrcNets :: "IPNet option slice"
  SrcSelector :: string
  SrcPorts :: "Port slice"
  DstTag :: string
  DstNet :: "IPNet option"
  DstNets :: "IPNet option slice"
  DstSelector :: string
  DstPorts :: "Port slice"
  NotSrcTag :: string
  NotSrcNet :: "IPNet option"
  NotSrcNets :: "IPNet option slice"
  NotSrcSelector :: string
  NotSrcPorts :: "Port slice"
  NotDstTag :: string
  NotDstNet :: "IPNet option"
  NotDstNets :: "IPNet option slice"
  NotDstSelector :: string
  NotDstPorts :: "Port slice"

text \<open>
  The current API shapes \<open>apiv3.ICMPFields\<close>, \<open>apiv3.EntityRule\<close> and \<open>apiv3.Rule\<close>, with
  the fields the conversion sets. \<open>apiv3.Action\<close> is a string type.
\<close>

type_synonym ActionV3 = string

record ICMPFieldsV3 =
  v3_icmp_Code :: "int option"
  v3_icmp_Type :: "int option"

record EntityRuleV3 =
  v3_Nets :: "string slice"
  v3_Selector :: string
  v3_Ports :: "Port slice"
  v3_NotNets :: "string slice"
  v3_NotSelector :: string
  v3_NotPorts :: "Port slice"

record RuleV3 =
  v3_Action :: ActionV3
  v3_IPVersion :: "int option"
  v3_Protocol :: "Protocol option"
  v3_ICMP :: "ICMPFieldsV3 option"
  v3_NotProtocol :: "Protocol option"
  v3_NotICMP :: "ICMPFieldsV3 option"
  v3_Source :: EntityRuleV3
  v3_Destination :: EntityRuleV3

text \<open>
  Failures are values: a Go run-time panic (the only failure of the rule conversion) and
  the error a policy conversion reports for a key or value of the wrong kind.
\<close>

datatype error = NilPointerDereference | TypeContractViolation

section \<open>Actions (rule.go, ruleActionAPIToBackend and ruleActionToV3API)\<close>

text \<open>
  Modelled from the spec: the constants \<open>apiv3.Allow\<close>, \<open>apiv3.Deny\<close>, \<open>apiv3.Log\<close> and
  \<open>apiv3.Pass\<close> are declared outside the files at hand; the spec names the enumeration
  \<open>{Allow, Deny, Log, Pass}\<close>.
\<close>

definition Allow :: ActionV3 where "Allow = ''Allow''"
definition Deny :: ActionV3 where "Deny = ''Deny''"
definition Log :: ActionV3 where "Log = ''Log''"
definition Pass :: ActionV3 where "Pass = ''Pass''"

text \<open>
  \<open>strings.ToLower\<close> on the bytes of a string: the letters \<open>A\<close> to \<open>Z\<close> are mapped to
  \<open>a\<close> to \<open>z\<close>, every other byte is kept. (Go also lowers non-ASCII letters; the result
  of such a letter is again non-ASCII except for U+0130 and U+212A, which become \<open>i\<close> and
  \<open>k\<close>, letters that occur in none of the four action names.)
\<close>

definition toLowerChar :: "char \<Rightarrow> char" where
  "toLowerChar c =
     (let n = (of_char c :: nat) in if 65 \<le> n \<and> n \<le> 90 then char_of (n + 32) else c)"

definition ToLower :: "string \<Rightarrow> string" where
  "ToLower s = map toLowerChar s"

definition ruleActionAPIToBackend :: "string \<Rightarrow> string" where
  "ruleActionAPIToBackend action = (if action = ''Pass'' then ''next-tier'' else action)"

text \<open>The loop over the four actions returns the first one that matches.\<close>

fun matchAction :: "string \<Rightarrow> ActionV3 list \<Rightarrow> ActionV3 option" where
  "matchAction inAction [] = None"
| "matchAction inAction (action # actions) =
     (if ToLower inAction = ToLower action then Some action
      else matchAction inAction actions)"

definition ruleActionToV3API :: "string \<Rightarrow> ActionV3" where
  "ruleActionToV3API inAction =
     (if inAction = '''' then Allow
      else if inAction = ''next-tier'' then Pass
      else (case matchAction inAction [Allow, Deny, Log, Pass] of
              Some action \<Rightarrow> action
            | None \<Rightarrow> inAction))"

section \<open>CIDR normalization (rule.go, normalizeIPNet and normalizeIPNets)\<close>

text \<open>
  Modelled from the spec: the method \<open>Network\<close> of \<open>net.IPNet\<close> (package lib/net) is
  outside the files at hand. The spec: it returns the network whose address is masked to
  the network's own prefix length (the host bits are cleared); it has no error path.
  This covers \<open>cidrMask\<close> (the mask with the leading \<open>ones\<close> bits set), \<open>maskIP\<close> and
  \<open>Network\<close>; a prefix length beyond the address width leaves the address as it is.
\<close>

definition cidrMask :: "nat \<Rightarrow> 'a::len word" where
  "cidrMask ones = NOT (mask (LENGTH('a) - ones))"

fun maskIP :: "nat \<Rightarrow> IP \<Rightarrow> IP" where
  "maskIP ones (IPv4 a) = IPv4 (a AND cidrMask ones)"
| "maskIP ones (IPv6 a) = IPv6 (a AND cidrMask ones)"

definition Network :: "IPNet \<Rightarrow> IPNet" where
  "Network n = n\<lparr>IP := maskIP (PrefixLen n) (IP n)\<rparr>"

definition normalizeIPNet :: "IPNet option \<Rightarrow> IPNet option" where
  "normalizeIPNet n = (case n of None \<Rightarrow> None | Some x \<Rightarrow> Some (Network x))"

definition normalizeIPNets :: "IPNet option slice \<Rightarrow> IPNet option slice" where
  "normalizeIPNets nets =
     (case nets of None \<Rightarrow> None | Some ns \<Rightarrow> Some (map normalizeIPNet ns))"

section \<open>Legacy API to backend (rule.go, rulesAPIToBackend and ruleAPIToBackend)\<close>

text \<open>
  The one-time deprecation warning of \<open>ruleAPIToBackend\<close> writes to the log only; the
  returned rule does not depend on it.
\<close>

definition ruleAPIToBackend :: "RuleV1 \<Rightarrow> Rule" where
  "ruleAPIToBackend ar =
     (let icmpCode = (case v1_ICMP ar of None \<Rightarrow> None | Some i \<Rightarrow> v1_icmp_Code i);
          icmpType = (case v1_ICMP ar of None \<Rightarrow> None | Some i \<Rightarrow> v1_icmp_Type i);
          notICMPCode = (case v1_NotICMP ar of None \<Rightarrow> None | Some i \<Rightarrow> v1_icmp_Code i);
          notICMPType = (case v1_NotICMP ar of None \<Rightarrow> None | Some i \<Rightarrow> v1_icmp_Type i)
      in \<lparr> Action = ruleActionAPIToBackend (v1_Action ar),
           IPVersion = v1_IPVersion ar,
           Protocol = v1_Protocol ar,
           ICMPCode = icmpCode,
           ICMPType = icmpType,
           NotProtocol = v1_NotProtocol ar,
           NotICMPCode = notICMPCode,
           NotICMPType = notICMPType,
           SrcTag = v1_Tag (v1_Source ar),
           SrcNet = v1_Net (v1_Source ar),
           SrcNets = v1_Nets (v1_Source ar),
           SrcSelector = v1_Selector (v1_Source ar),
           SrcPorts = v1_Ports (v1_Source ar),
           DstTag = v1_Tag (v1_Destination ar),
           DstNet = normalizeIPNet (v1_Net (v1_Destination ar)),
           DstNets = normalizeIPNets (v1_Nets (v1_Destination ar)),
           DstSelector = v1_Selector (v1_Destination ar),
           DstPorts = v1_Ports (v1_Destination ar),
           NotSrcTag = v1_NotTag (v1_Source ar),
           NotSrcNet = v1_NotNet (v1_Source ar),
           NotSrcNets = v1_NotNets (v1_Source ar),
           NotSrcSelector = v1_NotSelector (v1_Source ar),
           NotSrcPorts = v1_NotPorts (v1_Source ar),
           NotDstTag = v1_NotTag (v1_Destination ar),
           NotDstNet = normalizeIPNet (v1_NotNet (v1_Destination ar)),
           NotDstNets = normalizeIPNets (v1_NotNets (v1_Destination ar)),
           NotDstSelector = v1_NotSelector (v1_Destination ar),
           NotDstPorts = v1_NotPorts (v1_Destination ar) \<rparr>)"

definition rulesAPIToBackend :: "RuleV1 slice \<Rightarrow> Rule slice" where
  "rulesAPIToBackend ars =
     (case ars of None \<Rightarrow> Some [] | Some rs \<Rightarrow> Some (map ruleAPIToBackend rs))"

section \<open>Backend to current API (rule.go, rulesV1BackendToV3API and ruleBackendToAPI)\<close>

text \<open>
  Modelled from the spec: the methods \<open>AllSrcNets\<close>, \<open>AllDstNets\<close>, \<open>AllNotSrcNets\<close> and
  \<open>AllNotDstNets\<close> of \<open>model.Rule\<close> are outside the files at hand. The spec: they expand
  the stored net fields, the deprecated singular one and the plural list, into one flat
  sequence. The singular network, when present, is placed after the listed ones; no
  property below depends on that order. This covers \<open>combineNets\<close> and the four methods;
  \<open>elems\<close> gives the elements a \<open>range\<close> loop visits, none for the nil slice.
\<close>

definition elems :: "'a slice \<Rightarrow> 'a list" where
  "elems s = (case s of None \<Rightarrow> [] | Some xs \<Rightarrow> xs)"

definition combineNets :: "IPNet option \<Rightarrow> IPNet option slice \<Rightarrow> IPNet option slice" where
  "combineNets n nets = (case n of None \<Rightarrow> nets | Some x \<Rightarrow> Some (elems nets @ [Some x]))"

definition AllSrcNets :: "Rule \<Rightarrow> IPNet option slice" where
  "AllSrcNets r = combineNets (SrcNet r) (SrcNets r)"

definition AllDstNets :: "Rule \<Rightarrow> IPNet option slice" where
  "AllDstNets r = combineNets (DstNet r) (DstNets r)"

definition AllNotSrcNets :: "Rule \<Rightarrow> IPNet option slice" where
  "AllNotSrcNets r = combineNets (NotSrcNet r) (NotSrcNets r)"

definition AllNotDstNets :: "Rule \<Rightarrow> IPNet option slice" where
  "AllNotDstNets r = combineNets (NotDstNet r) (NotDstNets r)"

text \<open>
  Go's \<open>append\<close> to a slice: appending to the nil slice allocates a one-element slice.
  \<open>appendNetStrings\<close> is the loop \<open>for _, net := range nets { s = append(s, net.String()) }\<close>
  from the current value of \<open>s\<close>. The method \<open>String\<close> of \<open>net.IPNet\<close> (package lib/net)
  is outside the files at hand: the string it returns for a network is the parameter
  \<open>netString\<close>. The type embeds the standard library's network by value
  (workloadendpoint_e2e_test.go builds \<open>cnet.IPNet{*cidr1}\<close>), so the call through a nil
  element of the list is a nil dereference: the loop panics there.
\<close>

definition append_slice :: "'a slice \<Rightarrow> 'a \<Rightarrow> 'a slice" where
  "append_slice s x = (case s of None \<Rightarrow> Some [x] | Some xs \<Rightarrow> Some (xs @ [x]))"

fun appendNetStrings ::
  "(IPNet \<Rightarrow> string) \<Rightarrow> string slice \<Rightarrow> IPNet option list \<Rightarrow> error + string slice" where
  "appendNetStrings netString s [] = Inr s"
| "appendNetStrings netString s (None # ns) = Inl NilPointerDereference"
| "appendNetStrings netString s (Some n # ns) =
     appendNetStrings netString (append_slice s (netString n)) ns"

text \<open>\<open>fmt.Sprintf("(%s) && %s == ''", selector, tag)\<close>.\<close>

definition sprintfSelectorTag :: "string \<Rightarrow> string \<Rightarrow> string" where
  "sprintfSelectorTag selector tag =
     ''('' @ selector @ '') && '' @ tag @ '' == '' @ [CHR 0x27, CHR 0x27]"

text \<open>
  \<open>numorstring.ProtocolV3FromProtocolV1\<close> is outside the files at hand and is the
  parameter \<open>protocolV3\<close>. The four loops over the net lists run first, in the order of
  the source, and each panics on a nil element; dereferencing the nil \<open>Protocol\<close> pointer
  panics after them.
\<close>

definition ruleBackendToAPI ::
  "(IPNet \<Rightarrow> string) \<Rightarrow> (Protocol \<Rightarrow> Protocol) \<Rightarrow> Rule \<Rightarrow> error + RuleV3" where
  "ruleBackendToAPI netString protocolV3 br =
     (let icmp = (if ICMPCode br \<noteq> None \<or> ICMPType br \<noteq> None
                  then Some \<lparr> v3_icmp_Code = ICMPCode br, v3_icmp_Type = ICMPType br \<rparr>
                  else None);
          notICMP = (if NotICMPCode br \<noteq> None \<or> NotICMPType br \<noteq> None
                     then Some \<lparr> v3_icmp_Code = NotICMPCode br, v3_icmp_Type = NotICMPType br \<rparr>
                     else None)
      in case appendNetStrings netString None (elems (AllSrcNets br)) of
           Inl e \<Rightarrow> Inl e
         | Inr srcNetsStr \<Rightarrow>
      (case appendNetStrings netString None (elems (AllDstNets br)) of
           Inl e \<Rightarrow> Inl e
         | Inr dstNetsStr \<Rightarrow>
      (case appendNetStrings netString None (elems (AllNotSrcNets br)) of
           Inl e \<Rightarrow> Inl e
         | Inr notSrcNetsStr \<Rightarrow>
      (case appendNetStrings netString None (elems (AllNotDstNets br)) of
           Inl e \<Rightarrow> Inl e
         | Inr notDstNetsStr \<Rightarrow>
      (let srcSelector = (if SrcTag br \<noteq> '''' then sprintfSelectorTag (SrcSelector br) (SrcTag br)
                          else SrcSelector br);
           dstSelector = (if DstTag br \<noteq> '''' then sprintfSelectorTag (DstSelector br) (DstTag br)
                          else DstSelector br);
           notSrcSelector = (if NotSrcTag br \<noteq> ''''
                             then sprintfSelectorTag (NotSrcSelector br) (NotSrcTag br)
                             else NotSrcSelector br);
           notDstSelector = (if NotDstTag br \<noteq> ''''
                             then sprintfSelectorTag (NotDstSelector br) (NotDstTag br)
                             else NotDstSelector br)
       in case Protocol br of
            None \<Rightarrow> Inl NilPointerDereference
          | Some p \<Rightarrow>
              Inr \<lparr> v3_Action = ruleActionToV3API (Action br),
                    v3_IPVersion = IPVersion br,
                    v3_Protocol = Some (protocolV3 p),
                    v3_ICMP = icmp,
                    v3_NotProtocol = NotProtocol br,
                    v3_NotICMP = notICMP,
                    v3_Source = \<lparr> v3_Nets = srcNetsStr,
                                   v3_Selector = srcSelector,
                                   v3_Ports = SrcPorts br,
                                   v3_NotNets = notSrcNetsStr,
                                   v3_NotSelector = notSrcSelector,
                                   v3_NotPorts = NotSrcPorts br \<rparr>,
                    v3_Destination = \<lparr> v3_Nets = dstNetsStr,
                                        v3_Selector = dstSelector,
                                        v3_Ports = DstPorts br,
                                        v3_NotNets = notDstNetsStr,
                                        v3_NotSelector = notDstSelector,
                                        v3_NotPorts = NotDstPorts br \<rparr> \<rparr>)))))"

text \<open>
  The backend rules that \<open>ruleBackendToAPI\<close> has no nil pointer to trip over in its loops:
  none of the four plural net lists holds a nil element.
\<close>

definition noNilNets :: "Rule \<Rightarrow> bool" where
  "noNilNets br =
     (list_all (\<lambda>n. n \<noteq> None) (elems (SrcNets br))
      \<and> list_all (\<lambda>n. n \<noteq> None) (elems (DstNets br))
      \<and> list_all (\<lambda>n. n \<noteq> None) (elems (NotSrcNets br))
      \<and> list_all (\<lambda>n. n \<noteq> None) (elems (NotDstNets br)))"

definition convertible :: "Rule \<Rightarrow> bool" where
  "convertible br = (Protocol br \<noteq> None \<and> noNilNets br)"

text \<open>The loop of \<open>rulesV1BackendToV3API\<close>: the first rule that panics ends the call.\<close>

fun rulesBackendToAPI_loop ::
  "(IPNet \<Rightarrow> string) \<Rightarrow> (Protocol \<Rightarrow> Protocol) \<Rightarrow> Rule list \<Rightarrow> error + RuleV3 list" where
  "rulesBackendToAPI_loop netString protocolV3 [] = Inr []"
| "rulesBackendToAPI_loop netString protocolV3 (br # brs) =
     (case ruleBackendToAPI netString protocolV3 br of
        Inl e \<Rightarrow> Inl e
      | Inr ar \<Rightarrow>
          (case rulesBackendToAPI_loop netString protocolV3 brs of
             Inl e \<Rightarrow> Inl e
           | Inr ars \<Rightarrow> Inr (ar # ars)))"

definition rulesV1BackendToV3API ::
  "(IPNet \<Rightarrow> string) \<Rightarrow> (Protocol \<Rightarrow> Protocol) \<Rightarrow> Rule slice \<Rightarrow> error + RuleV3 slice" where
  "rulesV1BackendToV3API netString protocolV3 brs =
     (case brs of
        None \<Rightarrow> Inr None
      | Some rs \<Rightarrow>
          (case rulesBackendToAPI_loop netString protocolV3 rs of
             Inl e \<Rightarrow> Inl e
           | Inr ars \<Rightarrow> Inr (Some ars)))"

section \<open>Name normalization\<close>

text \<open>
  Modelled from the spec: the name conversion (NameNormalizer, spec 4.1) is outside the
  files at hand; only the names expected by \<open>policyTable\<close> in policy_test.go are. The spec:
  the name is lowercased, and any run of adjacent characters disallowed by the naming
  scheme (non-alphanumeric, non-hyphen), such as a dot-hyphen-dot run, collapses into a
  single separator \<open>.\<close>. Read here as: a maximal run of non-alphanumeric characters that
  holds a character other than the hyphen becomes one \<open>.\<close>; alphanumeric characters and
  runs made of hyphens alone are kept. This covers \<open>isAlphanumeric\<close>, \<open>isSpecial\<close>,
  \<open>collapseRun\<close>, \<open>collapseRuns\<close> and \<open>normalizeName\<close>.
\<close>

definition isAlphanumeric :: "char \<Rightarrow> bool" where
  "isAlphanumeric c =
     (let n = (of_char c :: nat)
      in (48 \<le> n \<and> n \<le> 57) \<or> (65 \<le> n \<and> n \<le> 90) \<or> (97 \<le> n \<and> n \<le> 122))"

definition isSpecial :: "char \<Rightarrow> bool" where
  "isSpecial c = (\<not> isAlphanumeric c)"

definition collapseRun :: "string \<Rightarrow> string" where
  "collapseRun run = (if list_all (\<lambda>x. x = CHR ''-'') run then run else ''.'')"

function collapseRuns :: "string \<Rightarrow> string" where
  "collapseRuns [] = []"
| "collapseRuns (c # cs) =
     (if isAlphanumeric c then c # collapseRuns cs
      else collapseRun (c # takeWhile isSpecial cs) @ collapseRuns (dropWhile isSpecial cs))"
  by pat_completeness auto
termination
  by (relation "measure length") (auto simp: length_dropWhile_le less_Suc_eq_le)

definition normalizeName :: "string \<Rightarrow> string" where
  "normalizeName name = collapseRuns (ToLower name)"

text \<open>
  The legacy names and the current-API names that \<open>policyTable\<close> (policy_test.go) expects
  for them, in the order of the table.
\<close>

definition policyTable_names :: "(string \<times> string) list" where
  "policyTable_names =
     [(''namyMcPolicyName'', ''namymcpolicyname''),
      (''MaKe.-.MaKe'', ''make.make''),
      (''RAWR'', ''rawr''),
      (''meow'', ''meow''),
      (''MaKe.-.MaKe'', ''make.make'')]"

section \<open>Policy conversion, backend to current API\<close>

text \<open>
  The backend policy \<open>model.Policy\<close> and its key/value pair, with the fields that
  \<open>policyTable\<close> (policy_test.go) fills in. A key or a value is an interface value: it
  holds a policy key (respectively a policy) or something of another kind. \<open>Order\<close> is a
  pointer to a 64-bit float that the conversion copies; it is kept as its bit pattern.
\<close>

type_synonym float64 = "64 word"

record Policy =
  Order :: "float64 option"
  InboundRules :: "Rule slice"
  OutboundRules :: "Rule slice"
  Selector :: string
  DoNotTrack :: bool
  PreDNAT :: bool
  ApplyOnForward :: bool
  Types :: "string slice"

datatype Key = PolicyKey string | OtherKey

datatype Value = PolicyValue Policy | OtherValue

record KVPair =
  Key :: Key
  Value :: Value

text \<open>
  The current-API policy \<open>apiv3.GlobalNetworkPolicy\<close>; \<open>'t\<close> is the type of its policy
  type markers.
\<close>

record 't GlobalNetworkPolicySpec =
  spec_Order :: "float64 option"
  spec_Ingress :: "RuleV3 slice"
  spec_Egress :: "RuleV3 slice"
  spec_Selector :: string
  spec_DoNotTrack :: bool
  spec_PreDNAT :: bool
  spec_ApplyOnForward :: bool
  spec_Types :: "'t slice"

record 't GlobalNetworkPolicy =
  Name :: string
  Spec :: "'t GlobalNetworkPolicySpec"

text \<open>
  Modelled from the spec: the method \<open>BackendV1ToAPIV3\<close> of \<open>Policy\<close> (policy.go) is
  outside the files at hand; policy_test.go calls it. The spec (4.6, invariant 2): a key
  or value that is not of the expected backend shape is reported as an error; the name is
  the normalized legacy name; the rule sequences are converted by the rule conversion;
  Order, Selector, DoNotTrack and PreDNAT are copied; ApplyOnForward is recomputed as
  \<open>ApplyOnForward_in OR (DoNotTrack AND PreDNAT)\<close>; the Types are mapped one by one, in
  order, to the current API's markers (the parameter \<open>policyTypeV3\<close>).
\<close>

definition BackendV1ToAPIV3 ::
  "(IPNet \<Rightarrow> string) \<Rightarrow> (Protocol \<Rightarrow> Protocol) \<Rightarrow> (string \<Rightarrow> 't) \<Rightarrow> KVPair
     \<Rightarrow> error + 't GlobalNetworkPolicy" where
  "BackendV1ToAPIV3 netString protocolV3 policyTypeV3 kvp =
     (case Value kvp of
        OtherValue \<Rightarrow> Inl TypeContractViolation
      | PolicyValue bp \<Rightarrow>
          (case Key kvp of
             OtherKey \<Rightarrow> Inl TypeContractViolation
           | PolicyKey name \<Rightarrow>
               (case rulesV1BackendToV3API netString protocolV3 (InboundRules bp) of
                  Inl e \<Rightarrow> Inl e
                | Inr ingress \<Rightarrow>
                    (case rulesV1BackendToV3API netString protocolV3 (OutboundRules bp) of
                       Inl e \<Rightarrow> Inl e
                     | Inr egress \<Rightarrow>
                         Inr \<lparr> Name = normalizeName name,
                               Spec = \<lparr> spec_Order = Order bp,
                                        spec_Ingress = ingress,
                                        spec_Egress = egress,
                                        spec_Selector = Selector bp,
                                        spec_DoNotTrack = DoNotTrack bp,
                                        spec_PreDNAT = PreDNAT bp,
                                        spec_ApplyOnForward =
                                          (ApplyOnForward bp \<or> (DoNotTrack bp \<and> PreDNAT bp)),
                                        spec_Types = map_option (map policyTypeV3) (Types bp)
                                      \<rparr> \<rparr>))))"

text \<open>
  The flags (DoNotTrack, PreDNAT, ApplyOnForward) of the backend policies of
  \<open>policyTable\<close> (policy_test.go) and the flags the table expects in the current API, in
  the order of the table.
\<close>

definition policyTable_flags :: "((bool \<times> bool \<times> bool) \<times> (bool \<times> bool \<times> bool)) list" where
  "policyTable_flags =
     [((True, True, True), (True, True, True)),
      ((True, True, True), (True, True, True)),
      ((True, True, False), (True, True, True)),
      ((False, False, True), (False, False, True)),
      ((True, True, True), (True, True, True))]"

text \<open>A backend policy pair with the given name and flags and with empty rule sequences.\<close>

definition policyWithFlags :: "string \<Rightarrow> bool \<times> bool \<times> bool \<Rightarrow> KVPair" where
  "policyWithFlags name flags =
     (case flags of (doNotTrack, preDNAT, applyOnForward) \<Rightarrow>
        \<lparr> Key = PolicyKey name,
          Value = PolicyValue \<lparr> Order = None, InboundRules = Some [], OutboundRules = Some [],
                                Selector = '''', DoNotTrack = doNotTrack, PreDNAT = preDNAT,
                                ApplyOnForward = applyOnForward, Types = None \<rparr> \<rparr>)"

section \<open>Sample rules\<close>

text \<open>The zero value of \<open>model.Rule\<close>: every pointer and slice nil, every string empty.\<close>

definition emptyRule :: Rule where
  "emptyRule =
     \<lparr> Action = '''', IPVersion = None, Protocol = None, ICMPCode = None, ICMPType = None,
       NotProtocol = None, NotICMPCode = None, NotICMPType = None,
       SrcTag = '''', SrcNet = None, SrcNets = None, SrcSelector = '''', SrcPorts = None,
       DstTag = '''', DstNet = None, DstNets = None, DstSelector = '''', DstPorts = None,
       NotSrcTag = '''', NotSrcNet = None, NotSrcNets = None, NotSrcSelector = '''',
       NotSrcPorts = None,
       NotDstTag = '''', NotDstNet = None, NotDstNets = None, NotDstSelector = '''',
       NotDstPorts = None \<rparr>"

text \<open>
  The rule of the comment in \<open>ruleBackendToAPI\<close> (source tag \<open>tag1\<close> with the selector
  \<open>label1 == 'value1' || make == 'cake'\<close>) in its backend form, with a protocol, a
  destination selector and a negated destination tag added.
\<close>

definition tagRule :: Rule where
  "tagRule = emptyRule
     \<lparr> Action := ''allow'', Protocol := Some (ProtocolName ''tcp''),
       SrcTag := ''tag1'', SrcSelector := ''label1 == 'value1' || make == 'cake'' @ [CHR 0x27],
       NotDstTag := ''tag2'', DstSelector := ''has(role)'' \<rparr>"

text \<open>
  A backend rule with networks and ICMP fields: the source network 10.0.0.5/24, an empty
  non-nil destination list, two negated source networks and an ICMP type without a code.
\<close>

definition netRule :: Rule where
  "netRule = emptyRule
     \<lparr> Action := ''next-tier'', Protocol := Some (ProtocolNum 1), ICMPType := Some 8,
       SrcNet := Some \<lparr> IP = IPv4 0x0A000005, PrefixLen = 24 \<rparr>,
       DstNets := Some [],
       NotSrcNets := Some [Some \<lparr> IP = IPv4 0xC0A80101, PrefixLen = 16 \<rparr>,
                           Some \<lparr> IP = IPv6 0x20010DB8000000000000000000000001, PrefixLen = 32 \<rparr>] \<rparr>"

text \<open>
  Strict CIDR masking (spec glossary): all bits of the address beyond the prefix length
  are zero. \<open>networkPrefix\<close> is the part of the address within the prefix length.
\<close>

definition strictlyMasked :: "IPNet \<Rightarrow> bool" where
  "strictlyMasked n =
     (case IP n of
        IPv4 a \<Rightarrow> take_bit (32 - PrefixLen n) a = 0
      | IPv6 a \<Rightarrow> take_bit (128 - PrefixLen n) a = 0)"

definition networkPrefix :: "IPNet \<Rightarrow> IP" where
  "networkPrefix n =
     (case IP n of
        IPv4 a \<Rightarrow> IPv4 (drop_bit (32 - PrefixLen n) a)
      | IPv6 a \<Rightarrow> IPv6 (drop_bit (128 - PrefixLen n) a))"

text \<open>The zero value of \<open>apiv1.EntityRule\<close>.\<close>

definition emptyEntityRuleV1 :: EntityRuleV1 where
  "emptyEntityRuleV1 =
     \<lparr> v1_Tag = '''', v1_Net = None, v1_Nets = None, v1_Selector = '''', v1_Ports = None,
       v1_NotTag = '''', v1_NotNet = None, v1_NotNets = None, v1_NotSelector = '''',
       v1_NotPorts = None \<rparr>"

text \<open>
  A legacy rule with the non-strictly masked network 10.0.0.5/24 on both sides, a
  present ICMP structure with neither field set and a negated ICMP structure with a type.
\<close>

definition hostBitsRuleV1 :: RuleV1 where
  "hostBitsRuleV1 =
     \<lparr> v1_Action = ''Pass'', v1_IPVersion = Some 4, v1_Protocol = Some (ProtocolNum 1),
       v1_ICMP = Some \<lparr> v1_icmp_Type = None, v1_icmp_Code = None \<rparr>,
       v1_NotProtocol = None,
       v1_NotICMP = Some \<lparr> v1_icmp_Type = Some 8, v1_icmp_Code = None \<rparr>,
       v1_Source = emptyEntityRuleV1
         \<lparr> v1_Net := Some \<lparr> IP = IPv4 0x0A000005, PrefixLen = 24 \<rparr>,
           v1_NotNets := Some [Some \<lparr> IP = IPv4 0x0A000005, PrefixLen = 24 \<rparr>] \<rparr>,
       v1_Destination = emptyEntityRuleV1
         \<lparr> v1_Net := Some \<lparr> IP = IPv4 0x0A000005, PrefixLen = 24 \<rparr>,
           v1_NotNets := Some [Some \<lparr> IP = IPv4 0x0A000005, PrefixLen = 24 \<rparr>, None] \<rparr> \<rparr>"

text \<open>
  The legacy rule above without the nil element in its negated destination list, a
  backend rule with a protocol whose source list holds a nil element, and a string for
  every network to stand for the method \<open>String\<close> in examples.
\<close>

definition icmpRuleV1 :: RuleV1 where
  "icmpRuleV1 = hostBitsRuleV1
     \<lparr> v1_Destination := emptyEntityRuleV1
         \<lparr> v1_Net := Some \<lparr> IP = IPv4 0x0A000005, PrefixLen = 24 \<rparr> \<rparr> \<rparr>"

definition nilNetRule :: Rule where
  "nilNetRule = emptyRule \<lparr> Protocol := Some (ProtocolName ''tcp''), SrcNets := Some [None] \<rparr>"

definition netName :: "IPNet \<Rightarrow> string" where
  "netName n = ''net''"

text \<open>
  What the loop builds from the nil slice for a list without nil element: nil when the
  list has no element, and otherwise the strings of its networks in order.
\<close>

definition netStrings :: "(IPNet \<Rightarrow> string) \<Rightarrow> IPNet option slice \<Rightarrow> string slice" where
  "netStrings netString nets =
     (if elems nets = [] then None else Some (map (\<lambda>n. netString (the n)) (elems nets)))"

section \<open>Properties\<close>

subsection \<open>Shared facts about the rule conversion\<close>

lemma appendNetStrings_eq:
  "appendNetStrings netString s ns =
     (if list_all (\<lambda>n. n \<noteq> None) ns
      then Inr (if ns = [] then s else Some (elems s @ map (\<lambda>n. netString (the n)) ns))
      else Inl NilPointerDereference)"
proof (induction ns arbitrary: s)
  case Nil
  then show ?case by simp
next
  case (Cons n ns)
  then show ?case
    by (cases n) (auto simp: append_slice_def elems_def split: option.splits)
qed

lemma appendNetStrings_None:
  "appendNetStrings netString None (elems nets) =
     (if list_all (\<lambda>n. n \<noteq> None) (elems nets) then Inr (netStrings netString nets)
      else Inl NilPointerDereference)"
  by (simp add: appendNetStrings_eq netStrings_def elems_def)

lemma combineNets_no_nil:
  "list_all (\<lambda>n. n \<noteq> None) (elems (combineNets n nets))
     = list_all (\<lambda>n. n \<noteq> None) (elems nets)"
  by (cases n; cases nets) (simp_all add: combineNets_def elems_def)

lemma combineNets_empty:
  "elems (combineNets n nets) = [] \<longleftrightarrow> n = None \<and> (nets = None \<or> nets = Some [])"
  by (cases n; cases nets) (simp_all add: combineNets_def elems_def)

lemma noNilNets_All:
  "noNilNets br =
     (list_all (\<lambda>n. n \<noteq> None) (elems (AllSrcNets br))
      \<and> list_all (\<lambda>n. n \<noteq> None) (elems (AllDstNets br))
      \<and> list_all (\<lambda>n. n \<noteq> None) (elems (AllNotSrcNets br))
      \<and> list_all (\<lambda>n. n \<noteq> None) (elems (AllNotDstNets br)))"
  unfolding noNilNets_def AllSrcNets_def AllDstNets_def AllNotSrcNets_def AllNotDstNets_def
    combineNets_no_nil by (rule refl)

lemma netStrings_nil:
  "netStrings netString nets \<noteq> Some []"
  "netStrings netString nets = None \<longleftrightarrow> elems nets = []"
  by (simp_all add: netStrings_def)

lemma ruleBackendToAPI_fails:
  assumes "\<not> convertible br"
  shows "ruleBackendToAPI netString protocolV3 br = Inl NilPointerDereference"
proof -
  have "ruleBackendToAPI netString protocolV3 br = Inl NilPointerDereference"
    if "\<not> list_all (\<lambda>n. n \<noteq> None) (elems (AllSrcNets br))
        \<or> \<not> list_all (\<lambda>n. n \<noteq> None) (elems (AllDstNets br))
        \<or> \<not> list_all (\<lambda>n. n \<noteq> None) (elems (AllNotSrcNets br))
        \<or> \<not> list_all (\<lambda>n. n \<noteq> None) (elems (AllNotDstNets br))"
    using that unfolding ruleBackendToAPI_def Let_def appendNetStrings_None
    by (auto split: option.splits)
  moreover have "ruleBackendToAPI netString protocolV3 br = Inl NilPointerDereference"
    if "Protocol br = None"
    using that unfolding ruleBackendToAPI_def Let_def appendNetStrings_None
    by (simp split: option.splits)
  ultimately show ?thesis
    using assms unfolding convertible_def noNilNets_All by blast
qed

lemma ruleBackendToAPI_result:
  assumes "Protocol br = Some p" and "noNilNets br"
  shows "ruleBackendToAPI netString protocolV3 br =
    Inr \<lparr> v3_Action = ruleActionToV3API (Action br),
          v3_IPVersion = IPVersion br,
          v3_Protocol = Some (protocolV3 p),
          v3_ICMP = (if ICMPCode br \<noteq> None \<or> ICMPType br \<noteq> None
                     then Some \<lparr> v3_icmp_Code = ICMPCode br, v3_icmp_Type = ICMPType br \<rparr>
                     else None),
          v3_NotProtocol = NotProtocol br,
          v3_NotICMP = (if NotICMPCode br \<noteq> None \<or> NotICMPType br \<noteq> None
                        then Some \<lparr> v3_icmp_Code = NotICMPCode br,
                                    v3_icmp_Type = NotICMPType br \<rparr>
                        else None),
          v3_Source = \<lparr> v3_Nets = netStrings netString (AllSrcNets br),
                         v3_Selector = (if SrcTag br \<noteq> ''''
                                        then sprintfSelectorTag (SrcSelector br) (SrcTag br)
                                        else SrcSelector br),
                         v3_Ports = SrcPorts br,
                         v3_NotNets = netStrings netString (AllNotSrcNets br),
                         v3_NotSelector = (if NotSrcTag br \<noteq> ''''
                                           then sprintfSelectorTag (NotSrcSelector br) (NotSrcTag br)
                                           else NotSrcSelector br),
                         v3_NotPorts = NotSrcPorts br \<rparr>,
          v3_Destination = \<lparr> v3_Nets = netStrings netString (AllDstNets br),
                              v3_Selector = (if DstTag br \<noteq> ''''
                                             then sprintfSelectorTag (DstSelector br) (DstTag br)
                                             else DstSelector br),
                              v3_Ports = DstPorts br,
                              v3_NotNets = netStrings netString (AllNotDstNets br),
                              v3_NotSelector = (if NotDstTag br \<noteq> ''''
                                                then sprintfSelectorTag (NotDstSelector br)
                                                       (NotDstTag br)
                                                else NotDstSelector br),
                              v3_NotPorts = NotDstPorts br \<rparr> \<rparr>"
proof -
  from assms(2) have
    "list_all (\<lambda>n. n \<noteq> None) (elems (AllSrcNets br))"
    "list_all (\<lambda>n. n \<noteq> None) (elems (AllDstNets br))"
    "list_all (\<lambda>n. n \<noteq> None) (elems (AllNotSrcNets br))"
    "list_all (\<lambda>n. n \<noteq> None) (elems (AllNotDstNets br))"
    unfolding noNilNets_All by blast+
  with assms(1) show ?thesis
    unfolding ruleBackendToAPI_def Let_def appendNetStrings_None by simp
qed

lemma ruleBackendToAPI_Inr_iff:
  "(\<exists>ar. ruleBackendToAPI netString protocolV3 br = Inr ar) \<longleftrightarrow> convertible br"
proof
  assume "\<exists>ar. ruleBackendToAPI netString protocolV3 br = Inr ar"
  then show "convertible br"
    using ruleBackendToAPI_fails [of br netString protocolV3] by (cases "convertible br") auto
next
  assume "convertible br"
  then show "\<exists>ar. ruleBackendToAPI netString protocolV3 br = Inr ar"
    using ruleBackendToAPI_result [of br _ netString protocolV3]
    by (auto simp: convertible_def)
qed

lemma ruleBackendToAPI_InrD:
  assumes "ruleBackendToAPI netString protocolV3 br = Inr ar"
  shows "\<exists>p. Protocol br = Some p \<and> noNilNets br"
  using assms ruleBackendToAPI_Inr_iff [of netString protocolV3 br]
  by (auto simp: convertible_def)

lemma rulesBackendToAPI_loop_length:
  "rulesBackendToAPI_loop netString protocolV3 brs = Inr ars \<Longrightarrow> length ars = length brs"
  by (induction brs arbitrary: ars) (auto split: sum.splits)

lemma rulesBackendToAPI_loop_Inr_iff:
  "(\<exists>ars. rulesBackendToAPI_loop netString protocolV3 brs = Inr ars)
     \<longleftrightarrow> list_all convertible brs"
proof (induction brs)
  case Nil
  then show ?case by simp
next
  case (Cons br brs)
  have "(\<exists>ars. rulesBackendToAPI_loop netString protocolV3 (br # brs) = Inr ars)
      \<longleftrightarrow> (\<exists>ar. ruleBackendToAPI netString protocolV3 br = Inr ar)
          \<and> (\<exists>ars. rulesBackendToAPI_loop netString protocolV3 brs = Inr ars)"
    by (auto split: sum.splits)
  with Cons show ?case
    by (simp add: ruleBackendToAPI_Inr_iff)
qed

lemma rulesV1BackendToV3API_Inr_iff:
  "(\<exists>out. rulesV1BackendToV3API netString protocolV3 brs = Inr out)
     \<longleftrightarrow> list_all convertible (elems brs)"
proof (cases brs)
  case None
  then show ?thesis by (simp add: rulesV1BackendToV3API_def elems_def)
next
  case (Some rs)
  have "(\<exists>out. rulesV1BackendToV3API netString protocolV3 (Some rs) = Inr out)
      \<longleftrightarrow> (\<exists>ars. rulesBackendToAPI_loop netString protocolV3 rs = Inr ars)"
    by (auto simp: rulesV1BackendToV3API_def split: sum.splits)
  with Some show ?thesis
    by (simp add: rulesBackendToAPI_loop_Inr_iff elems_def)
qed

subsection \<open>Nil and empty rule sequences\<close>

text \<open>
  C2. \<open>rulesAPIToBackend\<close> turns the nil legacy sequence into the empty non-nil backend
  sequence (and never returns nil), while \<open>rulesV1BackendToV3API\<close> returns nil for the nil
  backend sequence and the empty non-nil sequence for the empty one: on that leg the
  result is nil exactly when the input is nil, and empty exactly when the input is empty.
  Both legs keep the number of rules, and the second leg returns exactly when every rule
  has a protocol and no nil element in its net lists.
\<close>

theorem nil_and_empty_rule_sequences:
  "rulesAPIToBackend None = Some []
   \<and> rulesAPIToBackend (Some []) = Some []
   \<and> rulesAPIToBackend ars \<noteq> None
   \<and> map_option length (rulesAPIToBackend ars) = Some (length (elems ars))
   \<and> rulesV1BackendToV3API netString protocolV3 None = Inr None
   \<and> rulesV1BackendToV3API netString protocolV3 (Some []) = Inr (Some [])
   \<and> (rulesV1BackendToV3API netString protocolV3 brs = Inr out \<longrightarrow>
        (out = None \<longleftrightarrow> brs = None) \<and> (out = Some [] \<longleftrightarrow> brs = Some [])
        \<and> map_option length out = map_option length brs)
   \<and> ((\<exists>res. rulesV1BackendToV3API netString protocolV3 brs = Inr res)
        \<longleftrightarrow> list_all convertible (elems brs))"
proof -
  have leg2: "(out = None \<longleftrightarrow> brs = None) \<and> (out = Some [] \<longleftrightarrow> brs = Some [])
      \<and> map_option length out = map_option length brs"
    if "rulesV1BackendToV3API netString protocolV3 brs = Inr out"
    using that rulesBackendToAPI_loop_length [of netString protocolV3]
    by (fastforce simp: rulesV1BackendToV3API_def split: option.splits sum.splits)
  have leg1: "rulesAPIToBackend ars \<noteq> None
      \<and> map_option length (rulesAPIToBackend ars) = Some (length (elems ars))"
    by (cases ars) (simp_all add: rulesAPIToBackend_def elems_def)
  have nil: "rulesAPIToBackend None = Some [] \<and> rulesAPIToBackend (Some []) = Some []
      \<and> rulesV1BackendToV3API netString protocolV3 None = Inr None
      \<and> rulesV1BackendToV3API netString protocolV3 (Some []) = Inr (Some [])"
    by (simp add: rulesAPIToBackend_def rulesV1BackendToV3API_def)
  from nil leg1 leg2 rulesV1BackendToV3API_Inr_iff [of netString protocolV3 brs]
  show ?thesis by blast
qed

theorem nil_and_empty_rule_sequences_witness:
  "(\<exists>out. rulesV1BackendToV3API netName id (Some [tagRule, netRule]) = Inr out
      \<and> out \<noteq> None \<and> out \<noteq> Some [] \<and> map_option length out = Some 2)
   \<and> (\<forall>res. rulesV1BackendToV3API netName id (Some [tagRule, nilNetRule]) \<noteq> Inr res)"
proof -
  have p: "list_all convertible (elems (Some [tagRule, netRule]))"
    by (simp add: elems_def convertible_def noNilNets_def tagRule_def netRule_def emptyRule_def)
  have q: "\<not> list_all convertible (elems (Some [tagRule, nilNetRule]))"
    by (simp add: elems_def convertible_def noNilNets_def nilNetRule_def emptyRule_def)
  from nil_and_empty_rule_sequences [of None netName id "Some [tagRule, netRule]"] p
  obtain res where
    res: "rulesV1BackendToV3API netName id (Some [tagRule, netRule]) = Inr res"
    by blast
  from nil_and_empty_rule_sequences [of None netName id "Some [tagRule, netRule]" res] res
  have "res \<noteq> None \<and> res \<noteq> Some [] \<and> map_option length res = Some 2"
    by (auto simp: numeral_2_eq_2)
  moreover from nil_and_empty_rule_sequences [of None netName id "Some [tagRule, nilNetRule]"] q
  have "\<forall>res. rulesV1BackendToV3API netName id (Some [tagRule, nilNetRule]) \<noteq> Inr res"
    by blast
  ultimately show ?thesis using res by blast
qed

subsection \<open>Tags folded into selectors\<close>

text \<open>
  C3. In every current-API rule that \<open>ruleBackendToAPI\<close> returns, each of the four
  selectors (source and destination, match and negated match) is the backend selector
  itself when the corresponding tag is the empty string, and otherwise exactly
  \<open>"(" + selector + ") && " + tag + " == ''"\<close>. A rule is returned for every backend rule
  that has a protocol and no nil element in its net lists.
\<close>

theorem tag_selector_merge:
  "(ruleBackendToAPI netString protocolV3 br = Inr ar \<longrightarrow>
       v3_Selector (v3_Source ar) =
         (if SrcTag br = '''' then SrcSelector br
          else ''('' @ SrcSelector br @ '') && '' @ SrcTag br @ '' == '' @ [CHR 0x27, CHR 0x27])
     \<and> v3_Selector (v3_Destination ar) =
         (if DstTag br = '''' then DstSelector br
          else ''('' @ DstSelector br @ '') && '' @ DstTag br @ '' == '' @ [CHR 0x27, CHR 0x27])
     \<and> v3_NotSelector (v3_Source ar) =
         (if NotSrcTag br = '''' then NotSrcSelector br
          else ''('' @ NotSrcSelector br @ '') && '' @ NotSrcTag br @ '' == ''
               @ [CHR 0x27, CHR 0x27])
     \<and> v3_NotSelector (v3_Destination ar) =
         (if NotDstTag br = '''' then NotDstSelector br
          else ''('' @ NotDstSelector br @ '') && '' @ NotDstTag br @ '' == ''
               @ [CHR 0x27, CHR 0x27]))
   \<and> (convertible br \<longrightarrow> (\<exists>r. ruleBackendToAPI netString protocolV3 br = Inr r))"
proof -
  have "v3_Selector (v3_Source ar) =
         (if SrcTag br = '''' then SrcSelector br
          else ''('' @ SrcSelector br @ '') && '' @ SrcTag br @ '' == '' @ [CHR 0x27, CHR 0x27])
     \<and> v3_Selector (v3_Destination ar) =
         (if DstTag br = '''' then DstSelector br
          else ''('' @ DstSelector br @ '') && '' @ DstTag br @ '' == '' @ [CHR 0x27, CHR 0x27])
     \<and> v3_NotSelector (v3_Source ar) =
         (if NotSrcTag br = '''' then NotSrcSelector br
          else ''('' @ NotSrcSelector br @ '') && '' @ NotSrcTag br @ '' == ''
               @ [CHR 0x27, CHR 0x27])
     \<and> v3_NotSelector (v3_Destination ar) =
         (if NotDstTag br = '''' then NotDstSelector br
          else ''('' @ NotDstSelector br @ '') && '' @ NotDstTag br @ '' == ''
               @ [CHR 0x27, CHR 0x27])"
    if r: "ruleBackendToAPI netString protocolV3 br = Inr ar"
  proof -
    from ruleBackendToAPI_InrD [OF r] obtain p where "Protocol br = Some p" "noNilNets br"
      by blast
    from ruleBackendToAPI_result [OF this, of netString protocolV3] r show ?thesis
      by (auto simp: sprintfSelectorTag_def)
  qed
  then show ?thesis
    using ruleBackendToAPI_Inr_iff [of netString protocolV3 br] by blast
qed

theorem tag_selector_merge_witness:
  "\<exists>ar. ruleBackendToAPI netName id tagRule = Inr ar
     \<and> v3_Selector (v3_Source ar) =
          ''(label1 == 'value1' || make == 'cake') && tag1 == '' @ [CHR 0x27, CHR 0x27]
     \<and> v3_Selector (v3_Destination ar) = ''has(role)''
     \<and> v3_NotSelector (v3_Source ar) = ''''
     \<and> v3_NotSelector (v3_Destination ar) = ''() && tag2 == '' @ [CHR 0x27, CHR 0x27]"
proof -
  have c: "convertible tagRule"
    by (simp add: convertible_def noNilNets_def elems_def tagRule_def emptyRule_def)
  have f: "SrcTag tagRule = ''tag1''" "DstTag tagRule = ''''" "NotSrcTag tagRule = ''''"
    "NotDstTag tagRule = ''tag2''"
    "SrcSelector tagRule = ''label1 == 'value1' || make == 'cake'' @ [CHR 0x27]"
    "DstSelector tagRule = ''has(role)''" "NotSrcSelector tagRule = ''''"
    "NotDstSelector tagRule = ''''"
    by (simp_all add: tagRule_def emptyRule_def)
  from tag_selector_merge [of netName id tagRule] c
  obtain ar where ar: "ruleBackendToAPI netName id tagRule = Inr ar" by blast
  from tag_selector_merge [of netName id tagRule ar] ar f show ?thesis
    by simp
qed

subsection \<open>Actions\<close>

text \<open>
  C4. The legacy action \<open>Pass\<close> becomes the backend token \<open>next-tier\<close> and every other
  legacy action is unchanged. From the backend, the empty token becomes \<open>Allow\<close> and
  \<open>next-tier\<close> becomes \<open>Pass\<close>; any other token that equals \<open>allow\<close>, \<open>deny\<close>, \<open>log\<close>
  or \<open>pass\<close> after lowercasing becomes \<open>Allow\<close>, \<open>Deny\<close>, \<open>Log\<close> or \<open>Pass\<close>, and a token
  that matches none of them is returned as it is. Hence legacy \<open>Pass\<close> arrives as \<open>Pass\<close>.
\<close>

theorem action_mapping:
  "ruleActionAPIToBackend ''Pass'' = ''next-tier''
   \<and> (action \<noteq> ''Pass'' \<longrightarrow> ruleActionAPIToBackend action = action)
   \<and> ruleActionToV3API '''' = Allow
   \<and> ruleActionToV3API ''next-tier'' = Pass
   \<and> (inAction \<noteq> '''' \<and> inAction \<noteq> ''next-tier'' \<longrightarrow>
        (ToLower inAction = ''allow'' \<longrightarrow> ruleActionToV3API inAction = Allow)
      \<and> (ToLower inAction = ''deny'' \<longrightarrow> ruleActionToV3API inAction = Deny)
      \<and> (ToLower inAction = ''log'' \<longrightarrow> ruleActionToV3API inAction = Log)
      \<and> (ToLower inAction = ''pass'' \<longrightarrow> ruleActionToV3API inAction = Pass)
      \<and> (ToLower inAction \<notin> {''allow'', ''deny'', ''log'', ''pass''} \<longrightarrow>
           ruleActionToV3API inAction = inAction))
   \<and> ruleActionToV3API (ruleActionAPIToBackend ''Pass'') = Pass"
proof -
  have low: "ToLower Allow = ''allow''" "ToLower Deny = ''deny''"
    "ToLower Log = ''log''" "ToLower Pass = ''pass''"
    by code_simp+
  show ?thesis
    by (simp add: ruleActionAPIToBackend_def ruleActionToV3API_def low)
qed

theorem action_mapping_witness:
  "ruleActionAPIToBackend ''Deny'' = ''Deny''
   \<and> ruleActionToV3API ''dEnY'' = ''Deny''
   \<and> ruleActionToV3API ''PASS'' = ''Pass''
   \<and> ruleActionToV3API ''forward'' = ''forward''"
proof -
  have l1: "ToLower ''dEnY'' = ''deny''" by code_simp
  have l2: "ToLower ''PASS'' = ''pass''" by code_simp
  have l3: "ToLower ''forward'' = ''forward''" by code_simp
  show ?thesis
    using action_mapping [of "''Deny''" "''dEnY''"]
      action_mapping [of "''Deny''" "''PASS''"]
      action_mapping [of "''Deny''" "''forward''"]
    by (simp add: l1 l2 l3 Deny_def Pass_def)
qed

subsection \<open>The protocol is required\<close>

theorem protocol_required_counterexample:
  "Protocol nilNetRule = Some (ProtocolName ''tcp'')
   \<and> ruleBackendToAPI netName id nilNetRule = Inl NilPointerDereference"
proof -
  have "\<not> convertible nilNetRule"
    by (simp add: convertible_def noNilNets_def elems_def nilNetRule_def emptyRule_def)
  then have "ruleBackendToAPI netName id nilNetRule = Inl NilPointerDereference"
    by (rule ruleBackendToAPI_fails)
  then show ?thesis by (simp add: nilNetRule_def emptyRule_def)
qed

text \<open>
  C9, amended. \<open>ruleBackendToAPI\<close> returns a current-API rule exactly for the backend
  rules whose protocol is present and whose net lists hold no nil element; the rule it
  returns has a present protocol, the translation of the backend one. For a backend
  rule whose protocol is nil, as for one with a nil element in a net list, the call
  panics on the nil dereference, and no other outcome is provided for.
\<close>

theorem protocol_required:
  "((\<exists>r. ruleBackendToAPI netString protocolV3 br = Inr r)
      \<longleftrightarrow> Protocol br \<noteq> None \<and> noNilNets br)
   \<and> (ruleBackendToAPI netString protocolV3 br = Inr ar \<longrightarrow>
        (\<exists>p. Protocol br = Some p \<and> v3_Protocol ar = Some (protocolV3 p)))
   \<and> (Protocol br = None \<longrightarrow>
        ruleBackendToAPI netString protocolV3 br = Inl NilPointerDereference)
   \<and> (\<not> noNilNets br \<longrightarrow>
        ruleBackendToAPI netString protocolV3 br = Inl NilPointerDereference)"
proof -
  have "\<exists>p. Protocol br = Some p \<and> v3_Protocol ar = Some (protocolV3 p)"
    if r: "ruleBackendToAPI netString protocolV3 br = Inr ar"
  proof -
    from ruleBackendToAPI_InrD [OF r] obtain p where p: "Protocol br = Some p" "noNilNets br"
      by blast
    from ruleBackendToAPI_result [OF this, of netString protocolV3] r p(1) show ?thesis
      by auto
  qed
  then show ?thesis
    using ruleBackendToAPI_Inr_iff [of netString protocolV3 br]
      ruleBackendToAPI_fails [of br netString protocolV3]
    by (auto simp: convertible_def)
qed

theorem protocol_required_witness:
  "(\<exists>ar. ruleBackendToAPI netName id tagRule = Inr ar
      \<and> v3_Protocol ar = Some (ProtocolName ''tcp''))
   \<and> ruleBackendToAPI netName id emptyRule = Inl NilPointerDereference
   \<and> ruleBackendToAPI netName id nilNetRule = Inl NilPointerDereference"
proof -
  have t: "Protocol tagRule = Some (ProtocolName ''tcp'')" "noNilNets tagRule"
    by (simp_all add: noNilNets_def elems_def tagRule_def emptyRule_def)
  have e: "Protocol emptyRule = None"
    by (simp add: emptyRule_def)
  have n: "\<not> noNilNets nilNetRule"
    by (simp add: noNilNets_def elems_def nilNetRule_def emptyRule_def)
  from protocol_required [of netName id tagRule] t
  obtain ar where ar: "ruleBackendToAPI netName id tagRule = Inr ar" by auto
  from protocol_required [of netName id tagRule ar] ar t
  have "v3_Protocol ar = Some (ProtocolName ''tcp'')" by auto
  with ar protocol_required [of netName id emptyRule] e
    protocol_required [of netName id nilNetRule] n
  show ?thesis by auto
qed

subsection \<open>Net lists of the current-API rule\<close>

text \<open>
  C10. In every current-API rule that \<open>ruleBackendToAPI\<close> returns, each of the four net
  lists (Nets and NotNets of source and destination) is nil exactly when the loop has no
  network to append, and that is the case exactly when the corresponding singular net
  is nil and the plural list is nil or empty; in particular such a side never yields an
  empty non-nil list. A rule is returned for every backend rule that has a protocol and
  no nil element in its net lists.
\<close>

theorem nets_absent_when_no_network:
  "(ruleBackendToAPI netString protocolV3 br = Inr ar \<longrightarrow>
       (v3_Nets (v3_Source ar) = None \<longleftrightarrow> elems (AllSrcNets br) = [])
     \<and> (v3_Nets (v3_Destination ar) = None \<longleftrightarrow> elems (AllDstNets br) = [])
     \<and> (v3_NotNets (v3_Source ar) = None \<longleftrightarrow> elems (AllNotSrcNets br) = [])
     \<and> (v3_NotNets (v3_Destination ar) = None \<longleftrightarrow> elems (AllNotDstNets br) = [])
     \<and> v3_Nets (v3_Source ar) \<noteq> Some [] \<and> v3_Nets (v3_Destination ar) \<noteq> Some []
     \<and> v3_NotNets (v3_Source ar) \<noteq> Some [] \<and> v3_NotNets (v3_Destination ar) \<noteq> Some []
     \<and> (v3_Nets (v3_Source ar) = None \<longleftrightarrow>
          SrcNet br = None \<and> (SrcNets br = None \<or> SrcNets br = Some []))
     \<and> (v3_Nets (v3_Destination ar) = None \<longleftrightarrow>
          DstNet br = None \<and> (DstNets br = None \<or> DstNets br = Some []))
     \<and> (v3_NotNets (v3_Source ar) = None \<longleftrightarrow>
          NotSrcNet br = None \<and> (NotSrcNets br = None \<or> NotSrcNets br = Some []))
     \<and> (v3_NotNets (v3_Destination ar) = None \<longleftrightarrow>
          NotDstNet br = None \<and> (NotDstNets br = None \<or> NotDstNets br = Some [])))
   \<and> (convertible br \<longrightarrow> (\<exists>r. ruleBackendToAPI netString protocolV3 br = Inr r))"
proof -
  have "(v3_Nets (v3_Source ar) = None \<longleftrightarrow> elems (AllSrcNets br) = [])
     \<and> (v3_Nets (v3_Destination ar) = None \<longleftrightarrow> elems (AllDstNets br) = [])
     \<and> (v3_NotNets (v3_Source ar) = None \<longleftrightarrow> elems (AllNotSrcNets br) = [])
     \<and> (v3_NotNets (v3_Destination ar) = None \<longleftrightarrow> elems (AllNotDstNets br) = [])
     \<and> v3_Nets (v3_Source ar) \<noteq> Some [] \<and> v3_Nets (v3_Destination ar) \<noteq> Some []
     \<and> v3_NotNets (v3_Source ar) \<noteq> Some [] \<and> v3_NotNets (v3_Destination ar) \<noteq> Some []
     \<and> (v3_Nets (v3_Source ar) = None \<longleftrightarrow>
          SrcNet br = None \<and> (SrcNets br = None \<or> SrcNets br = Some []))
     \<and> (v3_Nets (v3_Destination ar) = None \<longleftrightarrow>
          DstNet br = None \<and> (DstNets br = None \<or> DstNets br = Some []))
     \<and> (v3_NotNets (v3_Source ar) = None \<longleftrightarrow>
          NotSrcNet br = None \<and> (NotSrcNets br = None \<or> NotSrcNets br = Some []))
     \<and> (v3_NotNets (v3_Destination ar) = None \<longleftrightarrow>
          NotDstNet br = None \<and> (NotDstNets br = None \<or> NotDstNets br = Some []))"
    if r: "ruleBackendToAPI netString protocolV3 br = Inr ar"
  proof -
    from ruleBackendToAPI_InrD [OF r] obtain p where "Protocol br = Some p" "noNilNets br"
      by blast
    from ruleBackendToAPI_result [OF this, of netString protocolV3] r
    have "v3_Nets (v3_Source ar) = netStrings netString (AllSrcNets br)"
      "v3_Nets (v3_Destination ar) = netStrings netString (AllDstNets br)"
      "v3_NotNets (v3_Source ar) = netStrings netString (AllNotSrcNets br)"
      "v3_NotNets (v3_Destination ar) = netStrings netString (AllNotDstNets br)"
      by auto
    moreover have "elems (AllSrcNets br) = []
        \<longleftrightarrow> SrcNet br = None \<and> (SrcNets br = None \<or> SrcNets br = Some [])"
      "elems (AllDstNets br) = []
        \<longleftrightarrow> DstNet br = None \<and> (DstNets br = None \<or> DstNets br = Some [])"
      "elems (AllNotSrcNets br) = []
        \<longleftrightarrow> NotSrcNet br = None \<and> (NotSrcNets br = None \<or> NotSrcNets br = Some [])"
      "elems (AllNotDstNets br) = []
        \<longleftrightarrow> NotDstNet br = None \<and> (NotDstNets br = None \<or> NotDstNets br = Some [])"
      by (simp_all add: AllSrcNets_def AllDstNets_def AllNotSrcNets_def AllNotDstNets_def
          combineNets_empty)
    ultimately show ?thesis
      by (simp add: netStrings_nil)
  qed
  then show ?thesis
    using ruleBackendToAPI_Inr_iff [of netString protocolV3 br] by blast
qed

theorem nets_absent_when_no_network_witness:
  "\<exists>ar. ruleBackendToAPI netName id netRule = Inr ar
     \<and> v3_Nets (v3_Source ar) \<noteq> None
     \<and> v3_Nets (v3_Destination ar) = None
     \<and> v3_NotNets (v3_Source ar) \<noteq> None
     \<and> v3_NotNets (v3_Destination ar) = None"
proof -
  have c: "convertible netRule"
    by (simp add: convertible_def noNilNets_def elems_def netRule_def emptyRule_def)
  have f: "SrcNet netRule \<noteq> None" "DstNet netRule = None" "DstNets netRule = Some []"
    "NotSrcNet netRule = None" "NotSrcNets netRule \<noteq> None" "NotSrcNets netRule \<noteq> Some []"
    "NotDstNet netRule = None" "NotDstNets netRule = None"
    by (simp_all add: netRule_def emptyRule_def)
  from nets_absent_when_no_network [of netName id netRule] c
  obtain ar where ar: "ruleBackendToAPI netName id netRule = Inr ar" by blast
  from nets_absent_when_no_network [of netName id netRule ar] ar f show ?thesis
    by auto
qed

subsection \<open>CIDR normalization\<close>

lemma cidrMask_bit:
  "bit (cidrMask ones :: 'a::len word) i \<longleftrightarrow> i < LENGTH('a) \<and> LENGTH('a) - ones \<le> i"
  by (auto simp: cidrMask_def bit_simps)

lemma cidrMask_idem: "(a AND cidrMask ones) AND cidrMask ones = a AND cidrMask ones"
  by (simp add: and.assoc)

lemma cidrMask_take_bit:
  "take_bit (LENGTH('a) - ones) (a AND (cidrMask ones :: 'a::len word)) = 0"
  by (rule bit_eqI) (auto simp: bit_simps cidrMask_bit)

lemma cidrMask_drop_bit:
  "drop_bit (LENGTH('a) - ones) (a AND (cidrMask ones :: 'a::len word))
     = drop_bit (LENGTH('a) - ones) a"
  by (rule bit_eqI) (auto simp: bit_simps cidrMask_bit dest: bit_imp_le_length)

lemma Network_idem: "Network (Network n) = Network n"
  by (cases "IP n") (simp_all add: Network_def cidrMask_idem)

lemma normalizeIPNet_idem: "normalizeIPNet (normalizeIPNet n) = normalizeIPNet n"
  by (cases n) (simp_all add: normalizeIPNet_def Network_idem)

lemma normalizeIPNets_idem: "normalizeIPNets (normalizeIPNets nets) = normalizeIPNets nets"
  by (cases nets) (simp_all add: normalizeIPNets_def normalizeIPNet_idem)

lemma Network_masked:
  "strictlyMasked (Network n) \<and> PrefixLen (Network n) = PrefixLen n
   \<and> networkPrefix (Network n) = networkPrefix n"
  using cidrMask_take_bit [where 'a = 32] cidrMask_take_bit [where 'a = 128]
    cidrMask_drop_bit [where 'a = 32] cidrMask_drop_bit [where 'a = 128]
  by (cases "IP n") (simp_all add: Network_def strictlyMasked_def networkPrefix_def)

lemma normalizeIPNet_Some:
  "normalizeIPNet n = Some m \<Longrightarrow> \<exists>x. n = Some x \<and> m = Network x"
  by (cases n) (auto simp: normalizeIPNet_def)

lemma normalizeIPNets_member:
  assumes "Some m \<in> set (elems (normalizeIPNets nets))"
  shows "\<exists>x. Some x \<in> set (elems nets) \<and> m = Network x"
proof (cases nets)
  case None
  with assms show ?thesis by (simp add: normalizeIPNets_def elems_def)
next
  case (Some ns)
  with assms obtain n where n: "n \<in> set ns" "normalizeIPNet n = Some m"
    by (auto simp: normalizeIPNets_def elems_def)
  from normalizeIPNet_Some [OF n(2)] n(1) Some show ?thesis
    by (auto simp: elems_def)
qed

text \<open>
  C7. \<open>normalizeIPNet\<close> and \<open>normalizeIPNets\<close> map nil to nil and are idempotent. Every
  non-nil network they return is strictly masked: the bits of its address beyond the
  prefix length are zero, while the prefix length and the address bits within it are
  those of the input network. Absence is preserved: a network is nil after normalization
  exactly when it was nil before, and a list keeps its length.
\<close>

theorem cidr_normalization:
  "normalizeIPNet None = None
   \<and> normalizeIPNets None = None
   \<and> normalizeIPNet (normalizeIPNet n) = normalizeIPNet n
   \<and> normalizeIPNets (normalizeIPNets nets) = normalizeIPNets nets
   \<and> (normalizeIPNet n = Some m \<longrightarrow>
        strictlyMasked m
        \<and> (\<exists>x. n = Some x \<and> PrefixLen m = PrefixLen x \<and> networkPrefix m = networkPrefix x))
   \<and> (Some k \<in> set (elems (normalizeIPNets nets)) \<longrightarrow>
        strictlyMasked k
        \<and> (\<exists>x. Some x \<in> set (elems nets)
              \<and> PrefixLen k = PrefixLen x \<and> networkPrefix k = networkPrefix x))
   \<and> (normalizeIPNet n \<noteq> None \<longleftrightarrow> n \<noteq> None)
   \<and> map_option length (normalizeIPNets nets) = map_option length nets"
proof -
  have one: "strictlyMasked m
        \<and> (\<exists>x. n = Some x \<and> PrefixLen m = PrefixLen x \<and> networkPrefix m = networkPrefix x)"
    if "normalizeIPNet n = Some m"
    using normalizeIPNet_Some [OF that] Network_masked by auto
  have many: "strictlyMasked k
        \<and> (\<exists>x. Some x \<in> set (elems nets)
              \<and> PrefixLen k = PrefixLen x \<and> networkPrefix k = networkPrefix x)"
    if "Some k \<in> set (elems (normalizeIPNets nets))"
    using normalizeIPNets_member [OF that] Network_masked by auto
  have pres: "(normalizeIPNet n \<noteq> None \<longleftrightarrow> n \<noteq> None)
    \<and> map_option length (normalizeIPNets nets) = map_option length nets"
    by (cases n; cases nets) (simp_all add: normalizeIPNet_def normalizeIPNets_def)
  have nil: "normalizeIPNet None = None \<and> normalizeIPNets None = None"
    by (simp add: normalizeIPNet_def normalizeIPNets_def)
  from nil normalizeIPNet_idem normalizeIPNets_idem one many pres show ?thesis
    by blast
qed

lemma Network_example:
  "Network \<lparr> IP = IPv4 0x0A000005, PrefixLen = 24 \<rparr> = \<lparr> IP = IPv4 0x0A000000, PrefixLen = 24 \<rparr>"
  by (simp add: Network_def cidrMask_def mask_eq_exp_minus_1)

theorem cidr_normalization_witness:
  "normalizeIPNet (Some \<lparr> IP = IPv4 0x0A000005, PrefixLen = 24 \<rparr>)
     = Some \<lparr> IP = IPv4 0x0A000000, PrefixLen = 24 \<rparr>
   \<and> strictlyMasked \<lparr> IP = IPv4 0x0A000000, PrefixLen = 24 \<rparr>
   \<and> \<not> strictlyMasked \<lparr> IP = IPv4 0x0A000005, PrefixLen = 24 \<rparr>
   \<and> normalizeIPNets (Some [Some \<lparr> IP = IPv4 0x0A000005, PrefixLen = 24 \<rparr>, None])
       = Some [Some \<lparr> IP = IPv4 0x0A000000, PrefixLen = 24 \<rparr>, None]"
proof -
  have n: "normalizeIPNet (Some \<lparr> IP = IPv4 0x0A000005, PrefixLen = 24 \<rparr>)
     = Some \<lparr> IP = IPv4 0x0A000000, PrefixLen = 24 \<rparr>"
    by (simp add: normalizeIPNet_def Network_example)
  have ns: "normalizeIPNets (Some [Some \<lparr> IP = IPv4 0x0A000005, PrefixLen = 24 \<rparr>, None])
       = Some [Some \<lparr> IP = IPv4 0x0A000000, PrefixLen = 24 \<rparr>, None]"
    by (simp add: normalizeIPNets_def normalizeIPNet_def Network_example)
  have un: "\<not> strictlyMasked \<lparr> IP = IPv4 0x0A000005, PrefixLen = 24 \<rparr>"
    by (simp add: strictlyMasked_def take_bit_eq_mask mask_eq_exp_minus_1)
  from cidr_normalization [of "Some \<lparr> IP = IPv4 0x0A000005, PrefixLen = 24 \<rparr>"
      "Some [Some \<lparr> IP = IPv4 0x0A000005, PrefixLen = 24 \<rparr>, None]"
      "\<lparr> IP = IPv4 0x0A000000, PrefixLen = 24 \<rparr>" "\<lparr> IP = IPv4 0x0A000000, PrefixLen = 24 \<rparr>"] n
  have "strictlyMasked \<lparr> IP = IPv4 0x0A000000, PrefixLen = 24 \<rparr>" by simp
  with n ns un show ?thesis by simp
qed

subsection \<open>Legacy API to backend: what is normalized and what is copied\<close>

text \<open>
  C5. In the backend rule that \<open>ruleAPIToBackend\<close> returns, the four destination-side
  networks (DstNet, DstNets, NotDstNet, NotDstNets) are the CIDR-normalized legacy ones,
  while the four source-side networks and the tags, selectors, ports, IP version and
  protocols are the legacy values unchanged.
\<close>

theorem only_destination_nets_normalized:
  "DstNet (ruleAPIToBackend ar) = normalizeIPNet (v1_Net (v1_Destination ar))
   \<and> DstNets (ruleAPIToBackend ar) = normalizeIPNets (v1_Nets (v1_Destination ar))
   \<and> NotDstNet (ruleAPIToBackend ar) = normalizeIPNet (v1_NotNet (v1_Destination ar))
   \<and> NotDstNets (ruleAPIToBackend ar) = normalizeIPNets (v1_NotNets (v1_Destination ar))
   \<and> SrcNet (ruleAPIToBackend ar) = v1_Net (v1_Source ar)
   \<and> SrcNets (ruleAPIToBackend ar) = v1_Nets (v1_Source ar)
   \<and> NotSrcNet (ruleAPIToBackend ar) = v1_NotNet (v1_Source ar)
   \<and> NotSrcNets (ruleAPIToBackend ar) = v1_NotNets (v1_Source ar)
   \<and> SrcTag (ruleAPIToBackend ar) = v1_Tag (v1_Source ar)
   \<and> DstTag (ruleAPIToBackend ar) = v1_Tag (v1_Destination ar)
   \<and> NotSrcTag (ruleAPIToBackend ar) = v1_NotTag (v1_Source ar)
   \<and> NotDstTag (ruleAPIToBackend ar) = v1_NotTag (v1_Destination ar)
   \<and> SrcSelector (ruleAPIToBackend ar) = v1_Selector (v1_Source ar)
   \<and> DstSelector (ruleAPIToBackend ar) = v1_Selector (v1_Destination ar)
   \<and> NotSrcSelector (ruleAPIToBackend ar) = v1_NotSelector (v1_Source ar)
   \<and> NotDstSelector (ruleAPIToBackend ar) = v1_NotSelector (v1_Destination ar)
   \<and> SrcPorts (ruleAPIToBackend ar) = v1_Ports (v1_Source ar)
   \<and> DstPorts (ruleAPIToBackend ar) = v1_Ports (v1_Destination ar)
   \<and> NotSrcPorts (ruleAPIToBackend ar) = v1_NotPorts (v1_Source ar)
   \<and> NotDstPorts (ruleAPIToBackend ar) = v1_NotPorts (v1_Destination ar)
   \<and> IPVersion (ruleAPIToBackend ar) = v1_IPVersion ar
   \<and> Protocol (ruleAPIToBackend ar) = v1_Protocol ar
   \<and> NotProtocol (ruleAPIToBackend ar) = v1_NotProtocol ar"
  by (simp add: ruleAPIToBackend_def Let_def)

theorem only_destination_nets_normalized_witness:
  "SrcNet (ruleAPIToBackend hostBitsRuleV1) = Some \<lparr> IP = IPv4 0x0A000005, PrefixLen = 24 \<rparr>
   \<and> DstNet (ruleAPIToBackend hostBitsRuleV1) = Some \<lparr> IP = IPv4 0x0A000000, PrefixLen = 24 \<rparr>
   \<and> NotSrcNets (ruleAPIToBackend hostBitsRuleV1)
       = Some [Some \<lparr> IP = IPv4 0x0A000005, PrefixLen = 24 \<rparr>]
   \<and> NotDstNets (ruleAPIToBackend hostBitsRuleV1)
       = Some [Some \<lparr> IP = IPv4 0x0A000000, PrefixLen = 24 \<rparr>, None]"
  using only_destination_nets_normalized [of hostBitsRuleV1]
  by (simp add: hostBitsRuleV1_def emptyEntityRuleV1_def normalizeIPNet_def normalizeIPNets_def
      Network_example)

subsection \<open>Presence of the ICMP structures\<close>

text \<open>
  C6. On the legacy-to-backend leg the backend rule has an ICMP code or type exactly when
  the legacy rule has an ICMP structure with at least one of the two fields set (and
  likewise for NotICMP). On the backend-to-current leg, in every rule that
  \<open>ruleBackendToAPI\<close> returns, the ICMP structure is present exactly when the backend
  rule has an ICMP code or type; when present it carries these two fields, and it is
  never a present structure with both fields unset (and likewise for NotICMP). A rule is
  returned for every backend rule that has a protocol and no nil element in its net
  lists.
\<close>

theorem icmp_presence:
  "((ICMPCode (ruleAPIToBackend ar) \<noteq> None \<or> ICMPType (ruleAPIToBackend ar) \<noteq> None)
      \<longleftrightarrow> (\<exists>i. v1_ICMP ar = Some i \<and> (v1_icmp_Code i \<noteq> None \<or> v1_icmp_Type i \<noteq> None)))
   \<and> ((NotICMPCode (ruleAPIToBackend ar) \<noteq> None \<or> NotICMPType (ruleAPIToBackend ar) \<noteq> None)
      \<longleftrightarrow> (\<exists>i. v1_NotICMP ar = Some i \<and> (v1_icmp_Code i \<noteq> None \<or> v1_icmp_Type i \<noteq> None)))
   \<and> (ruleBackendToAPI netString protocolV3 br = Inr r \<longrightarrow>
           (v3_ICMP r \<noteq> None \<longleftrightarrow> ICMPCode br \<noteq> None \<or> ICMPType br \<noteq> None)
         \<and> (v3_ICMP r \<noteq> None \<longrightarrow>
               v3_ICMP r = Some \<lparr> v3_icmp_Code = ICMPCode br, v3_icmp_Type = ICMPType br \<rparr>)
         \<and> v3_ICMP r \<noteq> Some \<lparr> v3_icmp_Code = None, v3_icmp_Type = None \<rparr>
         \<and> (v3_NotICMP r \<noteq> None \<longleftrightarrow> NotICMPCode br \<noteq> None \<or> NotICMPType br \<noteq> None)
         \<and> (v3_NotICMP r \<noteq> None \<longrightarrow>
               v3_NotICMP r
                 = Some \<lparr> v3_icmp_Code = NotICMPCode br, v3_icmp_Type = NotICMPType br \<rparr>)
         \<and> v3_NotICMP r \<noteq> Some \<lparr> v3_icmp_Code = None, v3_icmp_Type = None \<rparr>)
   \<and> (convertible br \<longrightarrow> (\<exists>res. ruleBackendToAPI netString protocolV3 br = Inr res))"
proof -
  have leg1: "(ICMPCode (ruleAPIToBackend ar) \<noteq> None \<or> ICMPType (ruleAPIToBackend ar) \<noteq> None)
      \<longleftrightarrow> (\<exists>i. v1_ICMP ar = Some i \<and> (v1_icmp_Code i \<noteq> None \<or> v1_icmp_Type i \<noteq> None))"
    by (cases "v1_ICMP ar") (simp_all add: ruleAPIToBackend_def Let_def)
  have leg1n: "(NotICMPCode (ruleAPIToBackend ar) \<noteq> None \<or> NotICMPType (ruleAPIToBackend ar) \<noteq> None)
      \<longleftrightarrow> (\<exists>i. v1_NotICMP ar = Some i \<and> (v1_icmp_Code i \<noteq> None \<or> v1_icmp_Type i \<noteq> None))"
    by (cases "v1_NotICMP ar") (simp_all add: ruleAPIToBackend_def Let_def)
  have leg2: "(v3_ICMP r \<noteq> None \<longleftrightarrow> ICMPCode br \<noteq> None \<or> ICMPType br \<noteq> None)
         \<and> (v3_ICMP r \<noteq> None \<longrightarrow>
               v3_ICMP r = Some \<lparr> v3_icmp_Code = ICMPCode br, v3_icmp_Type = ICMPType br \<rparr>)
         \<and> v3_ICMP r \<noteq> Some \<lparr> v3_icmp_Code = None, v3_icmp_Type = None \<rparr>
         \<and> (v3_NotICMP r \<noteq> None \<longleftrightarrow> NotICMPCode br \<noteq> None \<or> NotICMPType br \<noteq> None)
         \<and> (v3_NotICMP r \<noteq> None \<longrightarrow>
               v3_NotICMP r
                 = Some \<lparr> v3_icmp_Code = NotICMPCode br, v3_icmp_Type = NotICMPType br \<rparr>)
         \<and> v3_NotICMP r \<noteq> Some \<lparr> v3_icmp_Code = None, v3_icmp_Type = None \<rparr>"
    if r: "ruleBackendToAPI netString protocolV3 br = Inr r"
  proof -
    from ruleBackendToAPI_InrD [OF r] obtain p where "Protocol br = Some p" "noNilNets br"
      by blast
    from ruleBackendToAPI_result [OF this, of netString protocolV3] r
    have "v3_ICMP r = (if ICMPCode br \<noteq> None \<or> ICMPType br \<noteq> None
                     then Some \<lparr> v3_icmp_Code = ICMPCode br, v3_icmp_Type = ICMPType br \<rparr>
                     else None)"
      "v3_NotICMP r = (if NotICMPCode br \<noteq> None \<or> NotICMPType br \<noteq> None
                        then Some \<lparr> v3_icmp_Code = NotICMPCode br,
                                    v3_icmp_Type = NotICMPType br \<rparr>
                        else None)"
      by auto
    then show ?thesis by auto
  qed
  from leg1 leg1n leg2 ruleBackendToAPI_Inr_iff [of netString protocolV3 br]
  show ?thesis by blast
qed

theorem icmp_presence_witness:
  "ICMPCode (ruleAPIToBackend icmpRuleV1) = None
   \<and> ICMPType (ruleAPIToBackend icmpRuleV1) = None
   \<and> NotICMPType (ruleAPIToBackend icmpRuleV1) \<noteq> None
   \<and> (\<exists>r. ruleBackendToAPI netName id (ruleAPIToBackend icmpRuleV1) = Inr r
         \<and> v3_ICMP r = None
         \<and> v3_NotICMP r = Some \<lparr> v3_icmp_Code = None, v3_icmp_Type = Some 8 \<rparr>)"
proof -
  let ?b = "ruleAPIToBackend icmpRuleV1"
  have b: "ICMPCode ?b = None" "ICMPType ?b = None"
    "NotICMPCode ?b = None" "NotICMPType ?b = Some 8"
    by (simp_all add: ruleAPIToBackend_def icmpRuleV1_def hostBitsRuleV1_def Let_def)
  have c: "convertible ?b"
    by (simp add: convertible_def noNilNets_def elems_def ruleAPIToBackend_def icmpRuleV1_def
        hostBitsRuleV1_def emptyEntityRuleV1_def normalizeIPNets_def Let_def)
  from icmp_presence [of icmpRuleV1 netName id ?b, THEN conjunct2, THEN conjunct2,
      THEN conjunct2] c
  obtain r where r: "ruleBackendToAPI netName id ?b = Inr r" by blast
  from icmp_presence [of icmpRuleV1 netName id ?b r] r b
  have "v3_ICMP r = None \<and> v3_NotICMP r = Some \<lparr> v3_icmp_Code = None, v3_icmp_Type = Some 8 \<rparr>"
    by auto
  with r b show ?thesis by auto
qed

subsection \<open>The forwarding flag of a converted policy\<close>

text \<open>
  C1. Whenever \<open>BackendV1ToAPIV3\<close> returns a policy, its ApplyOnForward flag is
  \<open>ApplyOnForward_in OR (DoNotTrack_in AND PreDNAT_in)\<close> of the backend policy, and it
  does return one for every policy pair whose rules all have a protocol and no nil
  element in their net lists. In particular the flags (DoNotTrack, PreDNAT,
  ApplyOnForward) = (true, true, false) and (false, false, true) give true and
  (false, false, false) gives false.
\<close>

theorem apply_on_forward_flag:
  "(BackendV1ToAPIV3 netString protocolV3 policyTypeV3 kvp = Inr ap \<longrightarrow>
      (\<exists>bp. Value kvp = PolicyValue bp
         \<and> spec_ApplyOnForward (Spec ap)
             = (ApplyOnForward bp \<or> (DoNotTrack bp \<and> PreDNAT bp))))
   \<and> (Key kvp = PolicyKey name \<and> Value kvp = PolicyValue bp
        \<and> list_all convertible (elems (InboundRules bp))
        \<and> list_all convertible (elems (OutboundRules bp))
      \<longrightarrow> (\<exists>ap. BackendV1ToAPIV3 netString protocolV3 policyTypeV3 kvp = Inr ap
             \<and> spec_ApplyOnForward (Spec ap)
                 = (ApplyOnForward bp \<or> (DoNotTrack bp \<and> PreDNAT bp))))
   \<and> (\<exists>ap. BackendV1ToAPIV3 netString protocolV3 policyTypeV3
               (policyWithFlags name (True, True, False)) = Inr ap
          \<and> spec_ApplyOnForward (Spec ap) = True)
   \<and> (\<exists>ap. BackendV1ToAPIV3 netString protocolV3 policyTypeV3
               (policyWithFlags name (False, False, True)) = Inr ap
          \<and> spec_ApplyOnForward (Spec ap) = True)
   \<and> (\<exists>ap. BackendV1ToAPIV3 netString protocolV3 policyTypeV3
               (policyWithFlags name (False, False, False)) = Inr ap
          \<and> spec_ApplyOnForward (Spec ap) = False)"
proof -
  have a: "BackendV1ToAPIV3 netString protocolV3 policyTypeV3 kvp = Inr ap \<longrightarrow>
      (\<exists>bp. Value kvp = PolicyValue bp
         \<and> spec_ApplyOnForward (Spec ap)
             = (ApplyOnForward bp \<or> (DoNotTrack bp \<and> PreDNAT bp)))"
    by (auto simp: BackendV1ToAPIV3_def split: Value.splits Key.splits sum.splits)
  have b: "\<exists>ap. BackendV1ToAPIV3 netString protocolV3 policyTypeV3 kvp = Inr ap
             \<and> spec_ApplyOnForward (Spec ap)
                 = (ApplyOnForward bp \<or> (DoNotTrack bp \<and> PreDNAT bp))"
    if k: "Key kvp = PolicyKey name" and v: "Value kvp = PolicyValue bp"
      and i: "list_all convertible (elems (InboundRules bp))"
      and e: "list_all convertible (elems (OutboundRules bp))"
  proof -
    obtain ingress where
      "rulesV1BackendToV3API netString protocolV3 (InboundRules bp) = Inr ingress"
      using rulesV1BackendToV3API_Inr_iff [of netString protocolV3 "InboundRules bp"] i
      by blast
    moreover obtain egress where
      "rulesV1BackendToV3API netString protocolV3 (OutboundRules bp) = Inr egress"
      using rulesV1BackendToV3API_Inr_iff [of netString protocolV3 "OutboundRules bp"] e
      by blast
    ultimately show ?thesis
      using k v by (simp add: BackendV1ToAPIV3_def)
  qed
  have c: "\<exists>ap. BackendV1ToAPIV3 netString protocolV3 policyTypeV3
               (policyWithFlags name (d, q, f)) = Inr ap
          \<and> spec_ApplyOnForward (Spec ap) = (f \<or> (d \<and> q))" for d q f
    by (simp add: BackendV1ToAPIV3_def policyWithFlags_def rulesV1BackendToV3API_def)
  from a b c [of True True False] c [of False False True] c [of False False False]
  show ?thesis by simp
qed

theorem apply_on_forward_flag_witness:
  "list_all (\<lambda>(fin, fout).
       \<exists>ap. BackendV1ToAPIV3 netName id id (policyWithFlags ''RAWR'' fin) = Inr ap
         \<and> (spec_DoNotTrack (Spec ap), spec_PreDNAT (Spec ap), spec_ApplyOnForward (Spec ap))
             = fout)
     policyTable_flags"
proof -
  have "\<exists>ap. BackendV1ToAPIV3 netName id id (policyWithFlags ''RAWR'' (d, q, f)) = Inr ap
         \<and> (spec_DoNotTrack (Spec ap), spec_PreDNAT (Spec ap), spec_ApplyOnForward (Spec ap))
             = (d, q, f \<or> (d \<and> q))" for d q f
    using apply_on_forward_flag [of netName id id "policyWithFlags ''RAWR'' (d, q, f)" _
        "''RAWR''" "\<lparr> Order = None, InboundRules = Some [], OutboundRules = Some [],
                                Selector = '''', DoNotTrack = d, PreDNAT = q,
                                ApplyOnForward = f, Types = None \<rparr>"]
    by (auto simp: policyWithFlags_def elems_def BackendV1ToAPIV3_def rulesV1BackendToV3API_def)
  from this [of True True True] this [of True True False] this [of False False True]
  show ?thesis
    by (simp add: policyTable_flags_def)
qed

subsection \<open>Name normalization\<close>

lemma isSpecial_separators: "isSpecial CHR ''.''" "isSpecial CHR ''-''"
  by (simp_all add: isSpecial_def isAlphanumeric_def)

lemma toLowerChar_separators: "toLowerChar CHR ''.'' = CHR ''.''"
  by (simp add: toLowerChar_def)

lemma toLowerChar_idem: "toLowerChar (toLowerChar c) = toLowerChar c"
  by (auto simp: toLowerChar_def Let_def)

lemma ToLower_fixed: "(\<And>c. c \<in> set s \<Longrightarrow> toLowerChar c = c) \<Longrightarrow> ToLower s = s"
  by (simp add: ToLower_def map_idI)

lemma collapseRun_special:
  "r \<noteq> [] \<Longrightarrow> list_all isSpecial r \<Longrightarrow> collapseRun r \<noteq> [] \<and> list_all isSpecial (collapseRun r)"
  by (simp add: collapseRun_def isSpecial_separators)

lemma collapseRun_idem: "collapseRun (collapseRun r) = collapseRun r"
  by (simp add: collapseRun_def)

lemma collapseRun_set: "set (collapseRun r) \<subseteq> insert CHR ''.'' (set r)"
  by (auto simp: collapseRun_def)

lemma collapseRuns_set: "set (collapseRuns s) \<subseteq> insert CHR ''.'' (set s)"
proof (induction s rule: collapseRuns.induct)
  case 1
  then show ?case by simp
next
  case (2 c cs)
  show ?case
  proof (cases "isAlphanumeric c")
    case True
    with 2 show ?thesis by auto
  next
    case False
    have "set (collapseRun (c # takeWhile isSpecial cs)) \<subseteq> insert CHR ''.'' (set (c # cs))"
      using collapseRun_set [of "c # takeWhile isSpecial cs"] set_takeWhileD [of _ isSpecial cs]
      by auto
    moreover have "set (collapseRuns (dropWhile isSpecial cs)) \<subseteq> insert CHR ''.'' (set (c # cs))"
      using 2(2) [OF False] set_dropWhileD [of _ isSpecial cs] by auto
    ultimately show ?thesis using False by simp
  qed
qed

lemma collapseRuns_head:
  "s = [] \<or> isAlphanumeric (hd s) \<Longrightarrow>
     collapseRuns s = [] \<or> isAlphanumeric (hd (collapseRuns s))"
  by (cases s) auto

lemma collapseRuns_run_append:
  assumes "r \<noteq> []" and "list_all isSpecial r" and "s = [] \<or> isAlphanumeric (hd s)"
  shows "collapseRuns (r @ s) = collapseRun r @ collapseRuns s"
proof -
  obtain c cs where r: "r = c # cs" using assms(1) by (cases r) auto
  have sp: "\<forall>x\<in>set cs. isSpecial x" and c: "\<not> isAlphanumeric c"
    using assms(2) r by (auto simp: list_all_iff isSpecial_def)
  have "takeWhile isSpecial (cs @ s) = cs \<and> dropWhile isSpecial (cs @ s) = s"
    using sp assms(3) by (cases s) (auto simp: isSpecial_def)
  with c r show ?thesis by simp
qed

lemma collapseRuns_idem: "collapseRuns (collapseRuns s) = collapseRuns s"
proof (induction s rule: collapseRuns.induct)
  case 1
  then show ?case by simp
next
  case (2 c cs)
  show ?case
  proof (cases "isAlphanumeric c")
    case True
    with 2 show ?thesis by simp
  next
    case False
    let ?r = "c # takeWhile isSpecial cs" and ?rest = "dropWhile isSpecial cs"
    have run: "list_all isSpecial ?r"
      using False by (auto simp: list_all_iff isSpecial_def dest: set_takeWhileD)
    have rest: "?rest = [] \<or> isAlphanumeric (hd ?rest)"
      using hd_dropWhile [of isSpecial cs] by (auto simp: isSpecial_def)
    have "collapseRuns (collapseRun ?r @ collapseRuns ?rest)
          = collapseRun (collapseRun ?r) @ collapseRuns (collapseRuns ?rest)"
      using collapseRun_special [OF _ run] collapseRuns_head [OF rest]
      by (intro collapseRuns_run_append) simp_all
    then show ?thesis
      using False 2(2) [OF False] by (simp add: collapseRun_idem)
  qed
qed

lemma normalizeName_lower: "ToLower (normalizeName name) = normalizeName name"
proof (rule ToLower_fixed)
  fix c
  assume "c \<in> set (normalizeName name)"
  then have "c = CHR ''.'' \<or> c \<in> set (ToLower name)"
    using collapseRuns_set [of "ToLower name"] by (auto simp: normalizeName_def)
  then show "toLowerChar c = c"
    by (auto simp: toLowerChar_separators ToLower_def toLowerChar_idem)
qed

text \<open>
  C8. Name normalization is idempotent: normalizing a normalized name returns it
  unchanged. The result is lowercase, the name \<open>MaKe.-.MaKe\<close> normalizes to
  \<open>make.make\<close>, and every legacy name of \<open>policyTable\<close> normalizes to the name the table
  expects.
\<close>

theorem name_normalization_idempotent:
  "normalizeName (normalizeName name) = normalizeName name
   \<and> ToLower (normalizeName name) = normalizeName name
   \<and> normalizeName ''MaKe.-.MaKe'' = ''make.make''
   \<and> list_all (\<lambda>(legacy, current). normalizeName legacy = current) policyTable_names"
proof -
  have "normalizeName (normalizeName name) = collapseRuns (ToLower (normalizeName name))"
    by (simp add: normalizeName_def)
  also have "\<dots> = collapseRuns (collapseRuns (ToLower name))"
    by (simp add: normalizeName_lower) (simp add: normalizeName_def)
  finally have idem: "normalizeName (normalizeName name) = normalizeName name"
    by (simp add: collapseRuns_idem normalizeName_def)
  have ex: "normalizeName ''MaKe.-.MaKe'' = ''make.make''"
    by code_simp
  have tab: "list_all (\<lambda>(legacy, current). normalizeName legacy = current) policyTable_names"
    by code_simp
  from idem normalizeName_lower ex tab show ?thesis by blast
qed

theorem name_normalization_idempotent_witness:
  "normalizeName (normalizeName ''a--b_-c/../D-e.f'') = ''a--b.c.d-e.f''"
proof -
  have "normalizeName ''a--b_-c/../D-e.f'' = ''a--b.c.d-e.f''" by code_simp
  with name_normalization_idempotent [of "''a--b_-c/../D-e.f''"] show ?thesis by simp
qed

end
